theory Spec2Isabelle
  imports Main
begin

section \<open>Data model of the DataStore action layer\<close>

text \<open>
  The embedded file is \<^verbatim>\<open>ckanext/datastore/logic/action.py\<close>.  Its functions take a
  request dictionary (\<^verbatim>\<open>data_dict\<close>), mutate it, call collaborators (validation, the
  access policy, the resource registry, the table engine \<^verbatim>\<open>db\<close>, the search index) and
  either return a dictionary or raise.

  Python values are modelled by \<open>val\<close>; a dictionary whose keys are read by name is a map
  from strings to values; a nested dictionary whose key order is handed on to a
  collaborator is an association list.
\<close>

datatype val =
    VNone
  | VBool bool
  | VInt int
  | VStr string
  | VList "val list"
  | VDict "(string \<times> val) list"

text \<open>Python truthiness, as used by \<^verbatim>\<open>if x:\<close> and \<^verbatim>\<open>not x\<close>.\<close>

fun truthy :: "val \<Rightarrow> bool" where
  "truthy VNone = False"
| "truthy (VBool b) = b"
| "truthy (VInt i) = (i \<noteq> 0)"
| "truthy (VStr s) = (s \<noteq> [])"
| "truthy (VList xs) = (xs \<noteq> [])"
| "truthy (VDict kvs) = (kvs \<noteq> [])"

type_synonym pydict = "string \<rightharpoonup> val"

text \<open>Every exception the file raises or lets through is a value.\<close>

datatype error =
    ValidationError val
  | ObjectNotFound val
  | NotAuthorized string
  | InvalidDataError string
  | KeyError string
  | AttributeError string
  | TypeError string
  | NoResultFound
  | BackendError string

text \<open>
  The stores.  A row of the resource table (keyed by the resource id in \<open>registry\<close>), a row
  of the resource revision table, a row of the \<^verbatim>\<open>_table_metadata\<close> catalog, and a package
  document of the search index with its resource sub-documents.
\<close>

record resource =
  url_type :: val
  extras :: pydict
  package_id :: string

record resource_revision =
  rev_id :: string
  rev_current :: bool
  rev_extras :: pydict

record catalog_row =
  name :: string
  alias_of :: "string option"

record index_resource =
  ir_id :: string
  ir_fields :: pydict

record package_doc =
  doc_id :: string
  doc_resources :: "index_resource list"

record world =
  registry :: "string \<rightharpoonup> resource"
  package_private :: "string \<rightharpoonup> bool"
  revisions :: "resource_revision list"
  catalog :: "catalog_row list"

datatype schema = CreateSchema | UpsertSchema | SearchSchema | CustomSchema nat

record ctx =
  ctx_schema :: "schema option"
  ctx_model :: bool
  ctx_user :: string

text \<open>
  Every call on a collaborator is recorded, in order, with the argument it received, so that
  "before", "never" and "with which value" are statements about the list of events of a call.
  \<open>ResourceGet\<close> records \<^verbatim>\<open>model.Resource.get\<close> with the row it returned,
  \<open>EngineExecute\<close> a statement on the engine of the given connection string with its
  \<^verbatim>\<open>id\<close> parameter, \<open>SetActiveFlag\<close> the entry into \<^verbatim>\<open>set_datastore_active_flag\<close> with the
  \<^verbatim>\<open>resource_id\<close> of its dictionary and its flag, \<open>SessionCommit\<close> the call of
  \<^verbatim>\<open>model.Session.commit\<close>, and \<open>IndexPackage\<close> the call of \<^verbatim>\<open>psi.index_package\<close>.
\<close>

datatype event =
    CheckAccess string pydict
  | ResourceShow val
  | ResourceCreate "(string \<times> val) list"
  | ResourceUpdate pydict
  | DatapusherSubmit pydict
  | ResourceGet val "resource option"
  | EngineExecute "val option" val
  | DbCreate pydict
  | DbUpsert pydict
  | DbDelete pydict
  | DbSearch pydict
  | DbSearchSql pydict
  | SetActiveFlag "val option" bool
  | SessionCommit
  | IndexPackage package_doc

text \<open>
  The collaborators and helpers that live outside the file are parameters: the configuration,
  \<^verbatim>\<open>_validate\<close>, \<^verbatim>\<open>p.toolkit.check_access\<close> (\<open>None\<close> when access is granted, otherwise the
  exception it raises), the helpers of \<^verbatim>\<open>datastore_helpers\<close> and \<^verbatim>\<open>db\<close>, the actions
  fetched with \<^verbatim>\<open>get_action\<close>, the functions of the table engine \<^verbatim>\<open>db\<close>, and the query of the
  search index.  Registry actions return the registry they leave behind, the table engine
  returns the catalog it leaves behind.
\<close>

record env =
  config :: "string \<rightharpoonup> string"
  validate :: "schema \<Rightarrow> ctx \<Rightarrow> pydict \<Rightarrow> pydict \<times> (string \<times> val) list"
  check_access :: "string \<Rightarrow> ctx \<Rightarrow> world \<Rightarrow> pydict \<Rightarrow> error option"
  is_single_statement :: "val \<Rightarrow> bool"
  is_valid_table_name :: "val \<Rightarrow> bool"
  get_list :: "val \<Rightarrow> val list"
  plugin_loaded :: "string \<Rightarrow> bool"
  resource_create :: "ctx \<Rightarrow> world \<Rightarrow> (string \<times> val) list \<Rightarrow> error + (pydict \<times> (string \<rightharpoonup> resource))"
  resource_update :: "ctx \<Rightarrow> world \<Rightarrow> pydict \<Rightarrow> error + (string \<rightharpoonup> resource)"
  resource_show :: "ctx \<Rightarrow> world \<Rightarrow> val \<Rightarrow> error + pydict"
  datapusher_submit :: "ctx \<Rightarrow> world \<Rightarrow> pydict \<Rightarrow> error option"
  db_create :: "ctx \<Rightarrow> world \<Rightarrow> pydict \<Rightarrow> error + (pydict \<times> catalog_row list)"
  db_upsert :: "ctx \<Rightarrow> world \<Rightarrow> pydict \<Rightarrow> error + pydict"
  db_delete :: "ctx \<Rightarrow> world \<Rightarrow> pydict \<Rightarrow> error + (pydict \<times> catalog_row list)"
  db_search :: "ctx \<Rightarrow> world \<Rightarrow> pydict \<Rightarrow> error + pydict"
  db_search_sql :: "ctx \<Rightarrow> world \<Rightarrow> pydict \<Rightarrow> error + pydict"
  solr_run :: "string \<Rightarrow> string option \<Rightarrow> package_doc list"

section \<open>Actions: a result or an exception, the stores afterwards, the events\<close>

type_synonym 'a action = "world \<Rightarrow> (error + 'a) \<times> world \<times> event list"

definition ret :: "'a \<Rightarrow> 'a action" where
  "ret a w = (Inr a, w, [])"

definition raise :: "error \<Rightarrow> 'a action" where
  "raise e w = (Inl e, w, [])"

definition emit :: "event \<Rightarrow> unit action" where
  "emit ev w = (Inr (), w, [ev])"

definition bindM :: "'a action \<Rightarrow> ('a \<Rightarrow> 'b action) \<Rightarrow> 'b action" where
  "bindM m f w =
     (case m w of
        (Inl e, w1, evs) \<Rightarrow> (Inl e, w1, evs)
      | (Inr a, w1, evs) \<Rightarrow> (case f a w1 of (r, w2, evs2) \<Rightarrow> (r, w2, evs @ evs2)))"

definition outcome :: "(error + 'a) \<times> world \<times> event list \<Rightarrow> error + 'a" where
  "outcome x = fst x"

definition final :: "(error + 'a) \<times> world \<times> event list \<Rightarrow> world" where
  "final x = fst (snd x)"

definition events :: "(error + 'a) \<times> world \<times> event list \<Rightarrow> event list" where
  "events x = snd (snd x)"

subsection \<open>Small steps shared by the actions\<close>

text \<open>
  Modelled from the spec: \<^verbatim>\<open>ckan.logic.get_or_bust\<close> is not in the file; section 7 of the
  specification lists a missing required key among the validation errors.
\<close>

definition get_or_bust :: "pydict \<Rightarrow> string \<Rightarrow> val action" where
  "get_or_bust data_dict key =
     (case data_dict key of
        None \<Rightarrow> raise (ValidationError (VDict [(key, VList [VStr ''Missing value''])]))
      | Some v \<Rightarrow> ret v)"

text \<open>\<^verbatim>\<open>d[key]\<close> and \<^verbatim>\<open>config[key]\<close>: a missing key raises \<^verbatim>\<open>KeyError\<close>.\<close>

definition item :: "pydict \<Rightarrow> string \<Rightarrow> val action" where
  "item d key = (case d key of None \<Rightarrow> raise (KeyError key) | Some v \<Rightarrow> ret v)"

definition config_item :: "env \<Rightarrow> string \<Rightarrow> string action" where
  "config_item E key = (case config E key of None \<Rightarrow> raise (KeyError key) | Some v \<Rightarrow> ret v)"

text \<open>\<^verbatim>\<open>result.pop(key)\<close> without a default.\<close>

definition pop_key :: "pydict \<Rightarrow> string \<Rightarrow> pydict action" where
  "pop_key d key = (case d key of None \<Rightarrow> raise (KeyError key) | Some v \<Rightarrow> ret (d(key := None)))"

text \<open>\<^verbatim>\<open>d.pop(key, default)\<close> and \<^verbatim>\<open>d.get(key, default)\<close> read the same value.\<close>

definition get_default :: "pydict \<Rightarrow> string \<Rightarrow> val \<Rightarrow> val" where
  "get_default d key dflt = (case d key of None \<Rightarrow> dflt | Some v \<Rightarrow> v)"

definition check_accessM :: "env \<Rightarrow> string \<Rightarrow> ctx \<Rightarrow> pydict \<Rightarrow> unit action" where
  "check_accessM E action_name context data_dict =
     bindM (emit (CheckAccess action_name data_dict)) (\<lambda>_ w.
       case check_access E action_name context w data_dict of
         Some e \<Rightarrow> raise e w
       | None \<Rightarrow> ret () w)"

text \<open>A call of a table-engine function that leaves the catalog as it is.\<close>

definition call_db ::
  "(ctx \<Rightarrow> world \<Rightarrow> pydict \<Rightarrow> error + pydict) \<Rightarrow> (pydict \<Rightarrow> event) \<Rightarrow> ctx \<Rightarrow> pydict
     \<Rightarrow> pydict action" where
  "call_db f ev context data_dict =
     bindM (emit (ev data_dict)) (\<lambda>_ w.
       case f context w data_dict of
         Inl e \<Rightarrow> raise e w
       | Inr result \<Rightarrow> ret result w)"

text \<open>A call of a table-engine function that creates or drops tables and aliases.\<close>

definition call_db_ddl ::
  "(ctx \<Rightarrow> world \<Rightarrow> pydict \<Rightarrow> error + (pydict \<times> catalog_row list)) \<Rightarrow> (pydict \<Rightarrow> event)
     \<Rightarrow> ctx \<Rightarrow> pydict \<Rightarrow> pydict action" where
  "call_db_ddl f ev context data_dict =
     bindM (emit (ev data_dict)) (\<lambda>_ w.
       case f context w data_dict of
         Inl e \<Rightarrow> raise e w
       | Inr (result, cat) \<Rightarrow> ret result (w\<lparr>catalog := cat\<rparr>))"

text \<open>
  \<^verbatim>\<open>db._get_engine(data_dict).execute(resources_sql, id=res_id)\<close>: the engine is chosen by
  \<^verbatim>\<open>data_dict['connection_url']\<close>, the statement reads the catalog.  The two statements of
  the file differ in their \<^verbatim>\<open>WHERE\<close> clause: \<^verbatim>\<open>name = :id AND alias_of IS NULL\<close>, and
  \<^verbatim>\<open>name = :id\<close> alone.
\<close>

definition real_table_rows :: "world \<Rightarrow> val \<Rightarrow> catalog_row list" where
  "real_table_rows w res_id = filter (\<lambda>r. VStr (name r) = res_id \<and> alias_of r = None) (catalog w)"

definition named_rows :: "world \<Rightarrow> val \<Rightarrow> catalog_row list" where
  "named_rows w res_id = filter (\<lambda>r. VStr (name r) = res_id) (catalog w)"

definition engine_execute ::
  "(world \<Rightarrow> val \<Rightarrow> catalog_row list) \<Rightarrow> pydict \<Rightarrow> val \<Rightarrow> catalog_row list action" where
  "engine_execute query data_dict res_id =
     bindM (emit (EngineExecute (data_dict ''connection_url'') res_id)) (\<lambda>_ w.
       ret (query w res_id) w)"

definition ctx_get_schema :: "ctx \<Rightarrow> schema \<Rightarrow> schema" where
  "ctx_get_schema context dflt = (case ctx_schema context of None \<Rightarrow> dflt | Some s \<Rightarrow> s)"

definition WHITELISTED_RESOURCES :: "string list" where
  "WHITELISTED_RESOURCES = [''_table_metadata'']"

section \<open>The read actions\<close>

definition not_found :: "val \<Rightarrow> error" where
  "not_found res_id = ObjectNotFound res_id"

definition datastore_search :: "env \<Rightarrow> ctx \<Rightarrow> pydict \<Rightarrow> pydict action" where
  "datastore_search E context data_dict0 =
     (let schema = ctx_get_schema context SearchSchema;
          (data_dict, errors) = validate E schema context data_dict0
      in if errors \<noteq> [] then raise (ValidationError (VDict errors))
      else
      bindM (item data_dict ''resource_id'') (\<lambda>res_id.
      bindM (config_item E ''ckan.datastore.write_url'') (\<lambda>url.
      let data_dict = data_dict(''connection_url'' \<mapsto> VStr url) in
      bindM (engine_execute named_rows data_dict res_id) (\<lambda>results.
      if \<not> length results > 0 then raise (not_found res_id)
      else
      bindM (if res_id \<notin> set (map VStr WHITELISTED_RESOURCES) then
               (let data_dict =
                      (case alias_of (hd results) of
                         Some resource_id \<Rightarrow>
                           if resource_id \<noteq> [] then data_dict(''resource_id'' \<mapsto> VStr resource_id)
                           else data_dict
                       | None \<Rightarrow> data_dict)
                in bindM (check_accessM E ''datastore_search'' context data_dict) (\<lambda>_.
                   ret data_dict))
             else ret data_dict) (\<lambda>data_dict.
      bindM (call_db (db_search E) DbSearch context data_dict) (\<lambda>result.
      let result = result(''id'' := None) in
      bindM (pop_key result ''connection_url'') (\<lambda>result.
      ret result)))))))"

definition datastore_search_sql :: "env \<Rightarrow> ctx \<Rightarrow> pydict \<Rightarrow> pydict action" where
  "datastore_search_sql E context data_dict =
     bindM (get_or_bust data_dict ''sql'') (\<lambda>sql.
     if \<not> is_single_statement E sql then
       raise (ValidationError (VDict [(''query'', VList [VStr ''Query is not a single statement.''])]))
     else
     bindM (check_accessM E ''datastore_search_sql'' context data_dict) (\<lambda>_.
     bindM (config_item E ''ckan.datastore.read_url'') (\<lambda>url.
     let data_dict = data_dict(''connection_url'' \<mapsto> VStr url) in
     bindM (call_db (db_search_sql E) DbSearchSql context data_dict) (\<lambda>result.
     let result = result(''id'' := None) in
     bindM (pop_key result ''connection_url'') (\<lambda>result.
     ret result)))))"

section \<open>The read-only gate and the activation-flag synchronizer\<close>

definition read_only_error :: error where
  \<open>read_only_error =
     ValidationError (VDict [(''read-only'',
       VList [VStr (''Cannot edit read-only resource. Either pass'' @
                    ''"force=True" or change url-type to "datastore"'')])])\<close>

definition check_read_only :: "env \<Rightarrow> ctx \<Rightarrow> val \<Rightarrow> unit action" where
  "check_read_only E context resource_id =
     bindM (emit (ResourceShow resource_id)) (\<lambda>_ w.
       case resource_show E context w resource_id of
         Inl e \<Rightarrow> raise e w
       | Inr res \<Rightarrow>
           if get_default res ''url_type'' VNone \<noteq> VStr ''datastore'' then raise read_only_error w
           else ret () w)"

text \<open>\<^verbatim>\<open>_get_or_bust(context, 'model')\<close>.\<close>

definition get_model :: "ctx \<Rightarrow> unit action" where
  "get_model context =
     (if ctx_model context then ret ()
      else raise (ValidationError (VDict [(''model'', VList [VStr ''Missing value''])])))"

text \<open>\<^verbatim>\<open>model.Resource.get(id)\<close>: the row of the registry, or \<^verbatim>\<open>None\<close>.\<close>

definition lookup_resource :: "world \<Rightarrow> val \<Rightarrow> resource option" where
  "lookup_resource w res_id = (case res_id of VStr s \<Rightarrow> registry w s | _ \<Rightarrow> None)"

definition resource_get :: "val \<Rightarrow> resource option action" where
  "resource_get res_id w =
     (Inr (lookup_resource w res_id), w, [ResourceGet res_id (lookup_resource w res_id)])"

text \<open>
  \<^verbatim>\<open>res_query.update({'extras': extras})\<close> writes the extras of the rows of the resource
  table whose id is the given one.
\<close>

definition update_resource_extras :: "val \<Rightarrow> pydict \<Rightarrow> unit action" where
  "update_resource_extras res_id new_extras w =
     (case res_id of
        VStr s \<Rightarrow>
          (case registry w s of
             Some r \<Rightarrow> (Inr (), w\<lparr>registry := (registry w)(s \<mapsto> r\<lparr>extras := new_extras\<rparr>)\<rparr>, [])
           | None \<Rightarrow> (Inr (), w, []))
      | _ \<Rightarrow> (Inr (), w, []))"

text \<open>
  The update of the revision table is filtered by
  \<^verbatim>\<open>model.ResourceRevision.id == data_dict['resource_id']\<close> and by
  \<^verbatim>\<open>model.ResourceRevision.current is True\<close>.  The second criterion is Python's identity test
  on a column object: it is the constant \<^verbatim>\<open>False\<close>, whatever the row holds.
\<close>

definition current_is_True :: "resource_revision \<Rightarrow> bool" where
  "current_is_True revision = False"

definition update_revision_extras :: "val \<Rightarrow> pydict \<Rightarrow> unit action" where
  "update_revision_extras res_id new_extras w =
     (Inr (),
      w\<lparr>revisions :=
          map (\<lambda>revision.
                 if VStr (rev_id revision) = res_id \<and> current_is_True revision
                 then revision\<lparr>rev_extras := new_extras\<rparr> else revision) (revisions w)\<rparr>,
      [])"

text \<open>
  The inner loop over the resources of an indexed package: the first resource with the given
  id is patched and the loop is left; \<open>None\<close> when no resource has that id.
\<close>

fun patch_resources :: "val \<Rightarrow> bool \<Rightarrow> index_resource list \<Rightarrow> index_resource list option" where
  "patch_resources res_id flag [] = None"
| "patch_resources res_id flag (r # rs) =
     (if VStr (ir_id r) = res_id
      then Some (r\<lparr>ir_fields := (ir_fields r)(''datastore_active'' \<mapsto> VBool flag)\<rparr> # rs)
      else map_option (\<lambda>rs'. r # rs') (patch_resources res_id flag rs))"

text \<open>The outer loop over the documents the index returned.\<close>

fun index_records :: "val \<Rightarrow> bool \<Rightarrow> package_doc list \<Rightarrow> unit action" where
  "index_records res_id flag [] = ret ()"
| "index_records res_id flag (doc # docs) =
     (case patch_resources res_id flag (doc_resources doc) of
        Some rs \<Rightarrow>
          bindM (emit (IndexPackage (doc\<lparr>doc_resources := rs\<rparr>))) (\<lambda>_.
            index_records res_id flag docs)
      | None \<Rightarrow> index_records res_id flag docs)"

definition set_datastore_active_flag :: "env \<Rightarrow> pydict \<Rightarrow> bool \<Rightarrow> unit action" where
  "set_datastore_active_flag E data_dict flag =
     bindM (emit (SetActiveFlag (data_dict ''resource_id'') flag)) (\<lambda>_.
     bindM (item data_dict ''resource_id'') (\<lambda>res_id.
     bindM (\<lambda>w. case lookup_resource w res_id of
                   None \<Rightarrow> raise NoResultFound w
                 | Some r \<Rightarrow> ret r w) (\<lambda>r.
     let new_extras = (extras r)(''datastore_active'' \<mapsto> VBool flag) in
     bindM (update_resource_extras res_id new_extras) (\<lambda>_.
     bindM (update_revision_extras res_id new_extras) (\<lambda>_.
     bindM (emit SessionCommit) (\<lambda>_.
     index_records res_id flag (solr_run E (package_id r) (config E ''ckan.site_id''))))))))"

section \<open>The mutating actions\<close>

subsection \<open>\<^verbatim>\<open>datastore_create\<close>\<close>

text \<open>Lines 70 to 78: the dictionary and the errors the checks below work on.\<close>

definition create_validated :: "env \<Rightarrow> ctx \<Rightarrow> pydict \<Rightarrow> pydict \<times> (string \<times> val) list" where
  "create_validated E context data_dict0 =
     (let schema = ctx_get_schema context CreateSchema;
          records = get_default data_dict0 ''records'' VNone;
          resource = get_default data_dict0 ''resource'' VNone;
          (data_dict, errors) =
             validate E schema context (data_dict0(''records'' := None, ''resource'' := None));
          data_dict = (if truthy records then data_dict(''records'' \<mapsto> records) else data_dict);
          data_dict = (if truthy resource then data_dict(''resource'' \<mapsto> resource) else data_dict)
      in (data_dict, errors))"

text \<open>
  Lines 94 to 123.  The result is \<open>None\<close> where the source returns from the action (the
  resource comes from a file), and otherwise the dictionary the rest of the action goes on
  with.
\<close>

definition create_resource_branch :: "env \<Rightarrow> ctx \<Rightarrow> pydict \<Rightarrow> pydict option action" where
  "create_resource_branch E context data_dict =
     (case data_dict ''resource'' of
        Some resource \<Rightarrow>
          (case resource of
             VDict kvs \<Rightarrow>
               (let has_url = (map_of kvs ''url'' \<noteq> None);
                    kvs = (if has_url then kvs
                           else kvs @ [(''url'', VStr ''_datastore_only_resource'')]);
                    data_dict = data_dict(''resource'' \<mapsto> VDict kvs)
                in
                bindM (emit (ResourceCreate kvs)) (\<lambda>_.
                bindM (\<lambda>w. case resource_create E context w kvs of
                              Inl e \<Rightarrow> raise e w
                            | Inr (resource_dict, reg) \<Rightarrow> ret resource_dict (w\<lparr>registry := reg\<rparr>))
                  (\<lambda>resource_dict.
                bindM (item resource_dict ''id'') (\<lambda>new_id.
                let data_dict = data_dict(''resource_id'' \<mapsto> new_id) in
                if has_url then
                  (if \<not> plugin_loaded E ''datapusher'' then
                     raise (ValidationError (VDict [(''resource'',
                              VList [VStr ''The datapusher has to be enabled.''])]))
                   else
                     (let submit = [''resource_id'' \<mapsto> new_id, ''set_url_type'' \<mapsto> VBool True] in
                      bindM (emit (DatapusherSubmit submit)) (\<lambda>_ w.
                        case datapusher_submit E context w submit of
                          Some e \<Rightarrow> raise e w
                        | None \<Rightarrow> ret None w)))
                else
                  (let resource_dict = resource_dict(''url_type'' \<mapsto> VStr ''datastore'') in
                   bindM (emit (ResourceUpdate resource_dict)) (\<lambda>_ w.
                     case resource_update E context w resource_dict of
                       Inl e \<Rightarrow> raise e w
                     | Inr reg \<Rightarrow> ret (Some data_dict) (w\<lparr>registry := reg\<rparr>)))))))
           | VStr s \<Rightarrow> raise (AttributeError ''setdefault'')
           | VList xs \<Rightarrow> raise (AttributeError ''setdefault'')
           | _ \<Rightarrow> raise (TypeError ''argument is not iterable''))
      | None \<Rightarrow>
          (if \<not> truthy (get_default data_dict ''force'' (VBool False)) then
             (let data_dict = data_dict(''force'' := None) in
              bindM (item data_dict ''resource_id'') (\<lambda>resource_id.
              bindM (check_read_only E context resource_id) (\<lambda>_.
              ret (Some data_dict))))
           else ret (Some (data_dict(''force'' := None)))))"

text \<open>The loop over the aliases: the first invalid one raises.\<close>

fun validate_aliases :: "env \<Rightarrow> val list \<Rightarrow> unit action" where
  "validate_aliases E [] = ret ()"
| "validate_aliases E (alias # aliases) =
     (if \<not> is_valid_table_name E alias then
        raise (ValidationError (VDict [(''alias'', VList [alias])]))
      else validate_aliases E aliases)"

text \<open>\<^verbatim>\<open>resource.package.private\<close>, where the resource or its package may be \<^verbatim>\<open>None\<close>.\<close>

definition resource_package_private :: "resource option \<Rightarrow> bool action" where
  "resource_package_private resource w =
     (case resource of
        None \<Rightarrow> raise (AttributeError ''package'') w
      | Some r \<Rightarrow>
          (case package_private w (package_id r) of
             None \<Rightarrow> raise (AttributeError ''private'') w
           | Some b \<Rightarrow> ret b w))"

text \<open>
  Lines 125 to 140: the write connection, the aliases, the row of the resource, the private
  mark.  The result is the dictionary for the table engine and the resource that was read.
\<close>

definition create_prepare :: "env \<Rightarrow> ctx \<Rightarrow> pydict \<Rightarrow> (pydict \<times> resource option) action" where
  "create_prepare E context data_dict =
     bindM (config_item E ''ckan.datastore.write_url'') (\<lambda>url.
     let data_dict = data_dict(''connection_url'' \<mapsto> VStr url);
         aliases = get_list E (get_default data_dict ''aliases'' (VList []))
     in
     bindM (validate_aliases E aliases) (\<lambda>_.
     bindM (get_model context) (\<lambda>_.
     bindM (item data_dict ''resource_id'') (\<lambda>res_id.
     bindM (resource_get res_id) (\<lambda>resource.
     let legacy_mode = (config E ''ckan.datastore.read_url'' = None) in
     if \<not> legacy_mode then
       bindM (resource_package_private resource) (\<lambda>is_private.
         ret (if is_private then data_dict(''private'' \<mapsto> VBool True) else data_dict, resource))
     else ret (data_dict, resource))))))"

text \<open>
  Lines 142 to 157: the table engine, the activation flag, the result without its internal
  keys.
\<close>

definition create_run :: "env \<Rightarrow> ctx \<Rightarrow> pydict \<Rightarrow> resource option \<Rightarrow> pydict option action" where
  "create_run E context data_dict resource =
     bindM (emit (DbCreate data_dict)) (\<lambda>_.
     bindM (\<lambda>w. case db_create E context w data_dict of
                   Inl (InvalidDataError err) \<Rightarrow> raise (ValidationError (VStr err)) w
                 | Inl e \<Rightarrow> raise e w
                 | Inr (result, cat) \<Rightarrow> ret result (w\<lparr>catalog := cat\<rparr>)) (\<lambda>result.
     bindM (case resource of
              None \<Rightarrow> raise (AttributeError ''extras'')
            | Some r \<Rightarrow>
                if extras r ''datastore_active'' \<noteq> Some (VBool True)
                then set_datastore_active_flag E data_dict True
                else ret ()) (\<lambda>_.
     let result = result(''id'' := None, ''private'' := None) in
     bindM (pop_key result ''connection_url'') (\<lambda>result.
     ret (Some result)))))"

definition create_table :: "env \<Rightarrow> ctx \<Rightarrow> pydict \<Rightarrow> pydict option action" where
  "create_table E context data_dict =
     bindM (create_prepare E context data_dict) (\<lambda>(data_dict, resource).
     create_run E context data_dict resource)"

definition datastore_create :: "env \<Rightarrow> ctx \<Rightarrow> pydict \<Rightarrow> pydict option action" where
  "datastore_create E context data_dict0 =
     (let (data_dict, errors) = create_validated E context data_dict0
      in if errors \<noteq> [] then raise (ValidationError (VDict errors))
      else
      bindM (check_accessM E ''datastore_create'' context data_dict) (\<lambda>_.
      if data_dict ''resource'' \<noteq> None \<and> data_dict ''resource_id'' \<noteq> None then
        raise (ValidationError (VDict [(''resource'',
                 VList [VStr ''resource cannot be used with resource_id''])]))
      else if data_dict ''resource'' = None \<and> data_dict ''resource_id'' = None then
        raise (ValidationError (VDict [(''resource_id'',
                 VList [VStr ''resource_id or resource required''])]))
      else
      bindM (create_resource_branch E context data_dict) (\<lambda>branch.
      case branch of
        None \<Rightarrow> ret None
      | Some data_dict \<Rightarrow> create_table E context data_dict)))"

subsection \<open>\<^verbatim>\<open>datastore_upsert\<close>\<close>

definition upsert_validated :: "env \<Rightarrow> ctx \<Rightarrow> pydict \<Rightarrow> pydict \<times> (string \<times> val) list" where
  "upsert_validated E context data_dict0 =
     (let schema = ctx_get_schema context UpsertSchema;
          records = get_default data_dict0 ''records'' VNone;
          (data_dict, errors) = validate E schema context (data_dict0(''records'' := None));
          data_dict = (if truthy records then data_dict(''records'' \<mapsto> records) else data_dict)
      in (data_dict, errors))"

text \<open>
  Lines 206 to 221 of \<^verbatim>\<open>datastore_upsert\<close> and lines 333 to 348 of \<^verbatim>\<open>datastore_delete\<close> are
  the same statements: the read-only gate unless \<^verbatim>\<open>force\<close>, the write connection, the
  existence check against the catalog.
\<close>

definition gate_and_exists :: "env \<Rightarrow> ctx \<Rightarrow> pydict \<Rightarrow> pydict action" where
  "gate_and_exists E context data_dict =
     (let force = get_default data_dict ''force'' (VBool False);
          data_dict = data_dict(''force'' := None)
      in
      bindM (if \<not> truthy force then
               bindM (item data_dict ''resource_id'') (\<lambda>resource_id.
                 check_read_only E context resource_id)
             else ret ()) (\<lambda>_.
      bindM (config_item E ''ckan.datastore.write_url'') (\<lambda>url.
      let data_dict = data_dict(''connection_url'' \<mapsto> VStr url) in
      bindM (item data_dict ''resource_id'') (\<lambda>res_id.
      bindM (engine_execute real_table_rows data_dict res_id) (\<lambda>results.
      let res_exists = (length results > 0) in
      if \<not> res_exists then raise (not_found res_id)
      else ret data_dict)))))"

definition datastore_upsert :: "env \<Rightarrow> ctx \<Rightarrow> pydict \<Rightarrow> pydict action" where
  "datastore_upsert E context data_dict0 =
     (let (data_dict, errors) = upsert_validated E context data_dict0
      in if errors \<noteq> [] then raise (ValidationError (VDict errors))
      else
      bindM (check_accessM E ''datastore_upsert'' context data_dict) (\<lambda>_.
      bindM (gate_and_exists E context data_dict) (\<lambda>data_dict.
      bindM (call_db (db_upsert E) DbUpsert context data_dict) (\<lambda>result.
      let result = result(''id'' := None) in
      bindM (pop_key result ''connection_url'') (\<lambda>result.
      ret result)))))"

subsection \<open>\<^verbatim>\<open>datastore_delete\<close>\<close>

fun is_dict :: "val \<Rightarrow> bool" where
  "is_dict (VDict kvs) = True"
| "is_dict _ = False"

text \<open>
  Lines 313 to 329.  The schema is the one of \<^verbatim>\<open>datastore_upsert\<close>, as in the source.  The
  type check of the filters comes before the validation errors are raised.
\<close>

definition delete_validated :: "env \<Rightarrow> ctx \<Rightarrow> pydict \<Rightarrow> error + pydict" where
  "delete_validated E context data_dict0 =
     (let schema = ctx_get_schema context UpsertSchema;
          filters = get_default data_dict0 ''filters'' VNone;
          (data_dict, errors) = validate E schema context (data_dict0(''filters'' := None))
      in if filters \<noteq> VNone \<and> \<not> is_dict filters then
           Inl (ValidationError (VDict [(''filters'',
                  VList [VStr ''filters must be either a dict or null.''])]))
         else
           (let data_dict = (if filters \<noteq> VNone then data_dict(''filters'' \<mapsto> filters)
                             else data_dict)
            in if errors \<noteq> [] then Inl (ValidationError (VDict errors))
               else Inr data_dict))"

text \<open>Lines 352 to 361: the activation flag after the table engine has returned.\<close>

definition delete_sync :: "env \<Rightarrow> ctx \<Rightarrow> pydict \<Rightarrow> unit action" where
  "delete_sync E context data_dict =
     bindM (get_model context) (\<lambda>_.
     bindM (item data_dict ''resource_id'') (\<lambda>res_id.
     bindM (resource_get res_id) (\<lambda>resource.
     if \<not> truthy (get_default data_dict ''filters'' VNone) then
       (case resource of
          None \<Rightarrow> raise (AttributeError ''extras'')
        | Some r \<Rightarrow>
            if extras r ''datastore_active'' = Some (VBool True)
            then set_datastore_active_flag E data_dict False
            else ret ())
     else ret ())))"

definition datastore_delete :: "env \<Rightarrow> ctx \<Rightarrow> pydict \<Rightarrow> pydict action" where
  "datastore_delete E context data_dict0 =
     (case delete_validated E context data_dict0 of
        Inl e \<Rightarrow> raise e
      | Inr data_dict \<Rightarrow>
          bindM (check_accessM E ''datastore_delete'' context data_dict) (\<lambda>_.
          bindM (gate_and_exists E context data_dict) (\<lambda>data_dict.
          bindM (call_db_ddl (db_delete E) DbDelete context data_dict) (\<lambda>result.
          bindM (delete_sync E context data_dict) (\<lambda>_.
          let result = result(''id'' := None) in
          bindM (pop_key result ''connection_url'') (\<lambda>result.
          ret result))))))"

section \<open>A concrete deployment for the examples\<close>

text \<open>
  The theorems below hold for every choice of the collaborators.  The examples that apply
  them fix one: a configuration with distinct write and read-only URLs, a validator that
  accepts every request, an access policy that grants every request, a registry whose
  \<^verbatim>\<open>resource_create\<close>, \<^verbatim>\<open>resource_update\<close> and \<^verbatim>\<open>resource_show\<close> store and read the row of a
  resource, a table engine that answers with the dictionary it was given and keeps one
  catalog row per table, and a search index that holds one package document.
\<close>

definition demo_config :: "string \<rightharpoonup> string" where
  "demo_config =
     [''ckan.datastore.write_url'' \<mapsto> ''postgresql://rw@db/datastore'',
      ''ckan.datastore.read_url'' \<mapsto> ''postgresql://ro@db/datastore'',
      ''ckan.site_id'' \<mapsto> ''default'']"

definition demo_string :: "val \<Rightarrow> string" where
  "demo_string v = (case v of VStr s \<Rightarrow> s | _ \<Rightarrow> [])"

definition demo_env :: env where
  "demo_env =
     \<lparr> config = demo_config,
       validate = (\<lambda>schema context d. (d, [])),
       check_access = (\<lambda>action_name context w d. None),
       is_single_statement = (\<lambda>v. case v of VStr s \<Rightarrow> CHR '';'' \<notin> set s | _ \<Rightarrow> False),
       is_valid_table_name = (\<lambda>v. case v of VStr s \<Rightarrow> s \<noteq> [] \<and> CHR ''%'' \<notin> set s | _ \<Rightarrow> False),
       get_list = (\<lambda>v. case v of VList xs \<Rightarrow> xs | VNone \<Rightarrow> [] | _ \<Rightarrow> [v]),
       plugin_loaded = (\<lambda>plugin. plugin = ''datapusher''),
       resource_create = (\<lambda>context w kvs.
          Inr ((map_of kvs)(''id'' \<mapsto> VStr ''res-new''),
               (registry w)(''res-new'' \<mapsto>
                  \<lparr> url_type = get_default (map_of kvs) ''url_type'' VNone,
                    extras = Map.empty,
                    package_id = demo_string (get_default (map_of kvs) ''package_id'' VNone) \<rparr>))),
       resource_update = (\<lambda>context w d.
          case lookup_resource w (get_default d ''id'' VNone) of
            None \<Rightarrow> Inl (ObjectNotFound (get_default d ''id'' VNone))
          | Some r \<Rightarrow>
              Inr ((registry w)(demo_string (get_default d ''id'' VNone) \<mapsto>
                     r\<lparr>url_type := get_default d ''url_type'' VNone\<rparr>))),
       resource_show = (\<lambda>context w res_id.
          case lookup_resource w res_id of
            None \<Rightarrow> Inl (ObjectNotFound res_id)
          | Some r \<Rightarrow> Inr [''id'' \<mapsto> res_id, ''url_type'' \<mapsto> url_type r]),
       datapusher_submit = (\<lambda>context w d. None),
       db_create = (\<lambda>context w d.
          Inr (d, if real_table_rows w (get_default d ''resource_id'' VNone) \<noteq> [] then catalog w
                  else catalog w @
                    [\<lparr> name = demo_string (get_default d ''resource_id'' VNone), alias_of = None \<rparr>])),
       db_upsert = (\<lambda>context w d. Inr d),
       db_delete = (\<lambda>context w d.
          Inr (d, if d ''filters'' = None
                  then filter (\<lambda>r. VStr (name r) \<noteq> get_default d ''resource_id'' VNone
                                  \<and> map_option VStr (alias_of r) \<noteq> d ''resource_id'') (catalog w)
                  else catalog w)),
       db_search = (\<lambda>context w d. Inr d),
       db_search_sql = (\<lambda>context w d. Inr d),
       solr_run = (\<lambda>pkg site.
          if pkg = ''pkg-1''
          then [\<lparr> doc_id = ''pkg-1'',
                  doc_resources = [\<lparr> ir_id = ''res-0'', ir_fields = Map.empty \<rparr>] \<rparr>]
          else []) \<rparr>"

definition demo_ctx :: ctx where
  "demo_ctx = \<lparr> ctx_schema = None, ctx_model = True, ctx_user = ''alice'' \<rparr>"

definition demo_world :: world where
  "demo_world =
     \<lparr> registry =
         [''res-1'' \<mapsto> \<lparr> url_type = VStr ''datastore'',
                          extras = [''datastore_active'' \<mapsto> VBool True, ''size'' \<mapsto> VInt 7],
                          package_id = ''pkg-1'' \<rparr>,
          ''res-upload'' \<mapsto> \<lparr> url_type = VStr ''upload'', extras = Map.empty,
                               package_id = ''pkg-2'' \<rparr>],
       package_private = [''pkg-1'' \<mapsto> False, ''pkg-2'' \<mapsto> True],
       revisions = [\<lparr> rev_id = ''res-1'', rev_current = True,
                      rev_extras = [''datastore_active'' \<mapsto> VBool True, ''size'' \<mapsto> VInt 7] \<rparr>],
       catalog = [\<lparr> name = ''res-1'', alias_of = None \<rparr>,
                  \<lparr> name = ''budget'', alias_of = Some ''res-1'' \<rparr>,
                  \<lparr> name = ''_table_metadata'', alias_of = None \<rparr>] \<rparr>"

text \<open>
  Two requests in sequence: a resource specification without a source URL is given to
  \<^verbatim>\<open>datastore_create\<close>, which creates the resource and its table; the stores it leaves
  behind are those a later request finds.
\<close>

definition demo_create_request :: pydict where
  "demo_create_request = [''resource'' \<mapsto> VDict [(''package_id'', VStr ''pkg-1'')]]"

definition demo_after_create :: world where
  "demo_after_create = final (datastore_create demo_env demo_ctx demo_create_request demo_world)"

definition demo_upsert_request :: pydict where
  "demo_upsert_request =
     [''resource_id'' \<mapsto> VStr ''res-new'', ''records'' \<mapsto> VList [VDict [(''a'', VInt 1)]]]"

text \<open>A request with the source URL of a file, for the ingestion branch.\<close>

definition demo_url_request :: pydict where
  "demo_url_request =
     [''resource'' \<mapsto> VDict [(''package_id'', VStr ''pkg-1''),
                               (''url'', VStr ''http://example.com/data.csv'')]]"

text \<open>A deployment without the datapusher plugin.\<close>

definition demo_env_no_datapusher :: env where
  "demo_env_no_datapusher = demo_env\<lparr>plugin_loaded := (\<lambda>plugin. False)\<rparr>"

text \<open>A deployment whose read URL is configured and is the same string as the write URL.\<close>

definition demo_env_same_urls :: env where
  "demo_env_same_urls =
     demo_env\<lparr>config := [''ckan.datastore.write_url'' \<mapsto> ''postgresql://rw@db/datastore'',
                          ''ckan.datastore.read_url'' \<mapsto> ''postgresql://rw@db/datastore'']\<rparr>"

text \<open>A forced request on the uploaded resource, whose package is private.\<close>

definition demo_forced_request :: pydict where
  "demo_forced_request = [''resource_id'' \<mapsto> VStr ''res-upload'', ''force'' \<mapsto> VBool True]"

text \<open>
  The words of the specification, to be compared with the test the source makes
  (\<^verbatim>\<open>'ckan.datastore.read_url' not in config\<close>): the read/write split is enabled when a
  read URL distinct from the write URL is configured.
\<close>

definition read_write_split_spec :: "(string \<rightharpoonup> string) \<Rightarrow> bool" where
  "read_write_split_spec cfg =
     (case cfg ''ckan.datastore.read_url'' of
        None \<Rightarrow> False
      | Some r \<Rightarrow> cfg ''ckan.datastore.write_url'' \<noteq> Some r)"

section \<open>Unfolding rules\<close>

lemmas monad_defs = ret_def raise_def emit_def bindM_def outcome_def final_def events_def

lemmas step_defs = get_or_bust_def item_def config_item_def pop_key_def get_default_def
  check_accessM_def call_db_def call_db_ddl_def engine_execute_def

lemmas gate_defs = gate_and_exists_def check_read_only_def not_found_def

lemmas flag_defs = set_datastore_active_flag_def update_resource_extras_def
  update_revision_extras_def current_is_True_def

lemmas action_defs = datastore_create_def create_validated_def create_resource_branch_def
  create_table_def create_prepare_def create_run_def datastore_upsert_def upsert_validated_def
  datastore_delete_def delete_validated_def delete_sync_def datastore_search_def
  datastore_search_sql_def get_model_def resource_get_def resource_package_private_def
  lookup_resource_def ctx_get_schema_def real_table_rows_def named_rows_def
  WHITELISTED_RESOURCES_def

lemmas demo_defs = demo_env_def demo_config_def demo_ctx_def demo_world_def demo_string_def

lemmas eval_defs = action_defs gate_defs flag_defs monad_defs step_defs demo_defs Let_def

section \<open>Lemmas on the steps\<close>

subsection \<open>The synchronizer\<close>

lemma patch_resources_None:
  "(patch_resources res_id flag rs = None) = (\<forall>r \<in> set rs. VStr (ir_id r) \<noteq> res_id)"
  by (induction rs) auto

lemma index_records_result:
  "\<exists>evs. index_records res_id flag docs w = (Inr (), w, evs)
         \<and> (\<forall>e \<in> set evs. \<exists>doc. e = IndexPackage doc)"
  by (induction docs) (auto simp: monad_defs split: option.splits)

lemma index_records_no_match:
  "\<forall>doc \<in> set docs. \<forall>r \<in> set (doc_resources doc). VStr (ir_id r) \<noteq> res_id
     \<Longrightarrow> index_records res_id flag docs w = (Inr (), w, [])"
  by (induction docs) (auto simp: monad_defs patch_resources_None split: option.splits)

lemma set_flag_missing_key:
  "data_dict ''resource_id'' = None \<Longrightarrow>
   set_datastore_active_flag E data_dict flag w =
     (Inl (KeyError ''resource_id''), w, [SetActiveFlag None flag])"
  by (simp add: flag_defs monad_defs step_defs)

lemma set_flag_no_row:
  "data_dict ''resource_id'' = Some res_id \<Longrightarrow> lookup_resource w res_id = None \<Longrightarrow>
   set_datastore_active_flag E data_dict flag w =
     (Inl NoResultFound, w, [SetActiveFlag (Some res_id) flag])"
  by (simp add: flag_defs monad_defs step_defs)

lemma set_flag_row:
  assumes "data_dict ''resource_id'' = Some (VStr s)" and "registry w s = Some r"
  shows "\<exists>evs. set_datastore_active_flag E data_dict flag w =
     (Inr (),
      w\<lparr>registry := (registry w)(s \<mapsto>
           r\<lparr>extras := (extras r)(''datastore_active'' \<mapsto> VBool flag)\<rparr>)\<rparr>,
      SetActiveFlag (Some (VStr s)) flag # SessionCommit # evs)
     \<and> (\<forall>e \<in> set evs. \<exists>doc. e = IndexPackage doc)
     \<and> ((\<forall>doc \<in> set (solr_run E (package_id r) (config E ''ckan.site_id'')).
            \<forall>res \<in> set (doc_resources doc). ir_id res \<noteq> s) \<longrightarrow> evs = [])"
proof -
  let ?w = "w\<lparr>registry := (registry w)(s \<mapsto>
               r\<lparr>extras := (extras r)(''datastore_active'' \<mapsto> VBool flag)\<rparr>)\<rparr>"
  let ?docs = "solr_run E (package_id r) (config E ''ckan.site_id'')"
  obtain evs where evs: "index_records (VStr s) flag ?docs ?w = (Inr (), ?w, evs)"
    and only: "\<forall>e \<in> set evs. \<exists>doc. e = IndexPackage doc"
    using index_records_result by blast
  have run: "set_datastore_active_flag E data_dict flag w =
      (Inr (), ?w, SetActiveFlag (Some (VStr s)) flag # SessionCommit # evs)"
    using assms evs
    by (simp add: flag_defs monad_defs step_defs Let_def lookup_resource_def)
  have "evs = []"
    if "\<forall>doc \<in> set ?docs. \<forall>res \<in> set (doc_resources doc). ir_id res \<noteq> s"
    using index_records_no_match [of ?docs "VStr s" flag ?w] that evs by simp
  with run only show ?thesis by blast
qed


lemma set_flag_eventsD:
  assumes "set_datastore_active_flag E d flag w = (r, w2, evs)"
  shows "\<exists>rest. evs = SetActiveFlag (d ''resource_id'') flag # rest
           \<and> (\<forall>e \<in> set rest. e = SessionCommit \<or> (\<exists>doc. e = IndexPackage doc))
           \<and> package_private w2 = package_private w \<and> catalog w2 = catalog w"
proof (cases "d ''resource_id''")
  case None
  from set_flag_missing_key [of d E flag w] assms None show ?thesis by simp
next
  case (Some res_id)
  show ?thesis
  proof (cases "lookup_resource w res_id")
    case None
    from set_flag_no_row [of d res_id w E flag] assms Some None show ?thesis by simp
  next
    case (Some row)
    then obtain s where s: "res_id = VStr s" "registry w s = Some row"
      by (auto simp: lookup_resource_def split: val.splits)
    from set_flag_row [of d s w row E flag] \<open>d ''resource_id'' = Some res_id\<close> s assms
    show ?thesis by auto
  qed
qed

subsection \<open>Sequencing\<close>

lemma bindM_E:
  assumes "bindM m f w = (r, w', evs)"
  obtains (fail) e where "m w = (Inl e, w', evs)" "r = Inl e"
  | (ok) a w1 evs1 evs2 where "m w = (Inr a, w1, evs1)" "f a w1 = (r, w', evs2)" "evs = evs1 @ evs2"
  using assms by (auto simp: bindM_def split: prod.splits sum.splits)

lemma validate_aliases_result:
  "\<exists>r. validate_aliases E aliases w = (r, w, [])"
  by (induction aliases) (auto simp: monad_defs)

lemma create_prepare_post:
  assumes "create_prepare E context dd w = (r, w', evs)"
  shows "w' = w \<and> (\<forall>ev \<in> set evs. \<exists>res_id res. ev = ResourceGet res_id res)
       \<and> (\<forall>dd' resource. r = Inr (dd', resource) \<longrightarrow>
            (\<exists>res_id url. dd ''resource_id'' = Some res_id
               \<and> resource = lookup_resource w res_id
               \<and> evs = [ResourceGet res_id resource]
               \<and> config E ''ckan.datastore.write_url'' = Some url
               \<and> dd' = (if config E ''ckan.datastore.read_url'' \<noteq> None
                           \<and> (\<exists>row. resource = Some row
                                  \<and> package_private w (package_id row) = Some True)
                         then dd(''connection_url'' \<mapsto> VStr url, ''private'' \<mapsto> VBool True)
                         else dd(''connection_url'' \<mapsto> VStr url))))"
proof (cases "config E ''ckan.datastore.write_url''")
  case None
  then show ?thesis using assms by (auto simp: create_prepare_def monad_defs step_defs)
next
  case (Some url)
  let ?dd = "dd(''connection_url'' \<mapsto> VStr url)"
  obtain ra where al:
    "validate_aliases E (get_list E (get_default ?dd ''aliases'' (VList []))) w = (ra, w, [])"
    using validate_aliases_result by blast
  show ?thesis
    using assms Some al
    by (auto simp add: create_prepare_def monad_defs step_defs Let_def get_model_def
           resource_get_def resource_package_private_def
           split: option.splits sum.splits if_splits)
qed

lemma create_run_post:
  assumes "create_run E context dd resource w = (r, w', evs)"
  shows "\<exists>rest. evs = DbCreate dd # rest
        \<and> (\<forall>ev \<in> set rest. ev = SetActiveFlag (dd ''resource_id'') True \<or> ev = SessionCommit
               \<or> (\<exists>doc. ev = IndexPackage doc))
        \<and> (SetActiveFlag (dd ''resource_id'') True \<in> set rest \<longrightarrow>
             (\<exists>row. resource = Some row \<and> extras row ''datastore_active'' \<noteq> Some (VBool True)))
        \<and> (\<forall>result. r = Inr result \<longrightarrow>
             (\<exists>row description. resource = Some row \<and> result = Some description
                \<and> (extras row ''datastore_active'' \<noteq> Some (VBool True) \<longrightarrow>
                      SetActiveFlag (dd ''resource_id'') True \<in> set rest)))"
  using assms unfolding create_run_def
  apply (elim bindM_E)
      apply (auto simp: emit_def ret_def raise_def pop_key_def Let_def bindM_def
                  split: option.splits sum.splits prod.splits if_splits error.splits
                  dest!: set_flag_eventsD)
  done

lemma create_resource_branch_post:
  assumes "create_resource_branch E context dd w = (r, w', evs)"
  shows "package_private w' = package_private w
       \<and> (\<forall>ev \<in> set evs. (\<exists>v. ev = ResourceShow v) \<or> (\<exists>k. ev = ResourceCreate k)
              \<or> (\<exists>d. ev = ResourceUpdate d) \<or> (\<exists>d. ev = DatapusherSubmit d))
       \<and> (\<forall>dd'. r = Inr (Some dd') \<longrightarrow>
             dd' ''private'' = dd ''private''
           \<and> (dd ''resource'' = None \<longrightarrow> w' = w \<and> dd' = dd(''force'' := None)))"
  using assms unfolding create_resource_branch_def
  by (auto simp: monad_defs step_defs Let_def check_read_only_def
           split: option.splits sum.splits prod.splits if_splits val.splits)

lemma create_table_post:
  assumes "create_table E context dd w = (r, w', evs)"
  shows "(\<forall>d. DbCreate d \<in> set evs \<longrightarrow>
            (\<exists>res_id url. dd ''resource_id'' = Some res_id
               \<and> ResourceGet res_id (lookup_resource w res_id) \<in> set evs
               \<and> config E ''ckan.datastore.write_url'' = Some url
               \<and> d = (if config E ''ckan.datastore.read_url'' \<noteq> None
                         \<and> (\<exists>row. lookup_resource w res_id = Some row
                                \<and> package_private w (package_id row) = Some True)
                       then dd(''connection_url'' \<mapsto> VStr url, ''private'' \<mapsto> VBool True)
                       else dd(''connection_url'' \<mapsto> VStr url))))
       \<and> (\<forall>v. SetActiveFlag v False \<notin> set evs)
       \<and> (\<forall>v. SetActiveFlag v True \<in> set evs \<longrightarrow>
             v = dd ''resource_id''
           \<and> (\<exists>res_id row. v = Some res_id \<and> lookup_resource w res_id = Some row
                  \<and> extras row ''datastore_active'' \<noteq> Some (VBool True)))
       \<and> (\<forall>result. r = Inr result \<longrightarrow>
             (\<exists>res_id row description. dd ''resource_id'' = Some res_id
                \<and> lookup_resource w res_id = Some row \<and> result = Some description
                \<and> ResourceGet res_id (Some row) \<in> set evs
                \<and> (extras row ''datastore_active'' \<noteq> Some (VBool True) \<longrightarrow>
                      SetActiveFlag (Some res_id) True \<in> set evs)))"
  using assms unfolding create_table_def
proof (cases rule: bindM_E)
  case (fail e)
  from create_prepare_post [OF fail(1)] show ?thesis
    using fail(2) by fastforce
next
  case (ok a w1 evs1 evs2)
  obtain dd1 resource where a: "a = (dd1, resource)" by (cases a)
  from create_prepare_post [OF ok(1)] a
  obtain res_id url where prep: "w1 = w" "dd ''resource_id'' = Some res_id"
      "resource = lookup_resource w res_id" "evs1 = [ResourceGet res_id resource]"
      "config E ''ckan.datastore.write_url'' = Some url"
      "dd1 = (if config E ''ckan.datastore.read_url'' \<noteq> None
                         \<and> (\<exists>row. resource = Some row
                                \<and> package_private w (package_id row) = Some True)
                       then dd(''connection_url'' \<mapsto> VStr url, ''private'' \<mapsto> VBool True)
                       else dd(''connection_url'' \<mapsto> VStr url))"
    by blast
  have rid: "dd1 ''resource_id'' = Some res_id"
    using prep by simp
  from ok(2) a have run: "create_run E context dd1 resource w1 = (r, w', evs2)" by simp
  from create_run_post [OF run] rid
  obtain rest where rest: "evs2 = DbCreate dd1 # rest"
    "\<forall>ev \<in> set rest. ev = SetActiveFlag (Some res_id) True \<or> ev = SessionCommit
               \<or> (\<exists>doc. ev = IndexPackage doc)"
    "SetActiveFlag (Some res_id) True \<in> set rest \<longrightarrow>
             (\<exists>row. resource = Some row \<and> extras row ''datastore_active'' \<noteq> Some (VBool True))"
    "\<forall>result. r = Inr result \<longrightarrow>
             (\<exists>row description. resource = Some row \<and> result = Some description
                \<and> (extras row ''datastore_active'' \<noteq> Some (VBool True) \<longrightarrow>
                      SetActiveFlag (Some res_id) True \<in> set rest))"
    by auto
  have evs: "evs = ResourceGet res_id resource # DbCreate dd1 # rest"
    using ok(3) prep(4) rest(1) by simp
  have c1: "\<forall>d. DbCreate d \<in> set evs \<longrightarrow> d = dd1"
    using evs rest(2) by auto
  have c2: "\<forall>v. SetActiveFlag v False \<notin> set evs"
    using evs rest(2) by auto
  have c3: "\<forall>v. SetActiveFlag v True \<in> set evs \<longrightarrow> v = Some res_id \<and> SetActiveFlag (Some res_id) True \<in> set rest"
    using evs rest(2) by auto
  show ?thesis
  proof (intro conjI allI impI)
    fix d assume "DbCreate d \<in> set evs"
    with c1 have "d = dd1" by blast
    then show "\<exists>res_id url. dd ''resource_id'' = Some res_id
               \<and> ResourceGet res_id (lookup_resource w res_id) \<in> set evs
               \<and> config E ''ckan.datastore.write_url'' = Some url
               \<and> d = (if config E ''ckan.datastore.read_url'' \<noteq> None
                         \<and> (\<exists>row. lookup_resource w res_id = Some row
                                \<and> package_private w (package_id row) = Some True)
                       then dd(''connection_url'' \<mapsto> VStr url, ''private'' \<mapsto> VBool True)
                       else dd(''connection_url'' \<mapsto> VStr url))"
      using prep evs by auto
  next
    fix v show "SetActiveFlag v False \<notin> set evs" using c2 by blast
  next
    fix v assume "SetActiveFlag v True \<in> set evs"
    with c3 rest(3) prep show "v = dd ''resource_id''" by auto
  next
    fix v assume "SetActiveFlag v True \<in> set evs"
    with c3 rest(3) prep
    show "\<exists>res_id row. v = Some res_id \<and> lookup_resource w res_id = Some row
                  \<and> extras row ''datastore_active'' \<noteq> Some (VBool True)" by auto
  next
    fix result assume "r = Inr result"
    with rest(4) prep evs
    show "\<exists>res_id row description. dd ''resource_id'' = Some res_id
                \<and> lookup_resource w res_id = Some row \<and> result = Some description
                \<and> ResourceGet res_id (Some row) \<in> set evs
                \<and> (extras row ''datastore_active'' \<noteq> Some (VBool True) \<longrightarrow>
                      SetActiveFlag (Some res_id) True \<in> set evs)"
      by auto
  qed
qed

lemma datastore_create_post:
  assumes "create_validated E context data_dict0 = (data_dict, errors)"
    and "datastore_create E context data_dict0 w = (r, w', evs)"
  shows "((\<forall>d. DbCreate d \<notin> set evs) \<and> (\<forall>v b. SetActiveFlag v b \<notin> set evs)
          \<and> (\<forall>description. r \<noteq> Inr (Some description)))
       \<or> (\<exists>dd1 w1 pre evs2. evs = pre @ evs2 \<and> create_table E context dd1 w1 = (r, w', evs2)
            \<and> package_private w1 = package_private w
            \<and> dd1 ''private'' = data_dict ''private''
            \<and> (data_dict ''resource'' = None \<longrightarrow> w1 = w \<and> dd1 = data_dict(''force'' := None))
            \<and> (\<forall>ev \<in> set pre. (\<exists>a d. ev = CheckAccess a d) \<or> (\<exists>v. ev = ResourceShow v)
                   \<or> (\<exists>k. ev = ResourceCreate k) \<or> (\<exists>d. ev = ResourceUpdate d)
                   \<or> (\<exists>d. ev = DatapusherSubmit d)))"
proof (cases "errors \<noteq> []")
  case True
  then show ?thesis using assms by (auto simp: datastore_create_def raise_def)
next
  case False
  let ?rest = "\<lambda>u::unit.
      if data_dict ''resource'' \<noteq> None \<and> data_dict ''resource_id'' \<noteq> None then
        raise (ValidationError (VDict [(''resource'',
                 VList [VStr ''resource cannot be used with resource_id''])]))
      else if data_dict ''resource'' = None \<and> data_dict ''resource_id'' = None then
        raise (ValidationError (VDict [(''resource_id'',
                 VList [VStr ''resource_id or resource required''])]))
      else
      bindM (create_resource_branch E context data_dict) (\<lambda>branch.
      case branch of
        None \<Rightarrow> ret None
      | Some data_dict \<Rightarrow> create_table E context data_dict)"
  have run: "bindM (check_accessM E ''datastore_create'' context data_dict) ?rest w = (r, w', evs)"
    using assms False by (simp add: datastore_create_def)
  from run show ?thesis
  proof (cases rule: bindM_E)
    case (fail e)
    then show ?thesis
      by (auto simp: check_accessM_def monad_defs split: option.splits)
  next
    case (ok a w1 evs1 evs2)
    have acc: "w1 = w" "evs1 = [CheckAccess ''datastore_create'' data_dict]"
      using ok(1) by (auto simp: check_accessM_def monad_defs split: option.splits)
    show ?thesis
    proof (cases "(data_dict ''resource'' \<noteq> None \<and> data_dict ''resource_id'' \<noteq> None)
                \<or> (data_dict ''resource'' = None \<and> data_dict ''resource_id'' = None)")
      case True
      then show ?thesis using ok acc by (auto simp: raise_def)
    next
      case False
      then have br: "bindM (create_resource_branch E context data_dict) (\<lambda>branch.
          case branch of None \<Rightarrow> ret None | Some data_dict \<Rightarrow> create_table E context data_dict) w
          = (r, w', evs2)"
        using ok(2) acc by auto
      from br show ?thesis
      proof (cases rule: bindM_E)
        case (fail e)
        from create_resource_branch_post [OF fail(1)] fail(2) ok(3) acc
        show ?thesis by fastforce
      next
        case (ok branch w2 evs3 evs4)
        note post = create_resource_branch_post [OF ok(1)]
        show ?thesis
        proof (cases branch)
          case None
          then have "r = Inr None" "evs4 = []" using ok(2) by (auto simp: ret_def)
          with post \<open>evs = evs1 @ evs2\<close> acc ok(3) show ?thesis by fastforce
        next
          case (Some dd1)
          then have tab: "create_table E context dd1 w2 = (r, w', evs4)" using ok(2) by simp
          have "evs = (evs1 @ evs3) @ evs4" using \<open>evs = evs1 @ evs2\<close> ok(3) by simp
          moreover have "\<forall>ev \<in> set (evs1 @ evs3). (\<exists>a d. ev = CheckAccess a d) \<or> (\<exists>v. ev = ResourceShow v)
                   \<or> (\<exists>k. ev = ResourceCreate k) \<or> (\<exists>d. ev = ResourceUpdate d)
                   \<or> (\<exists>d. ev = DatapusherSubmit d)"
            using post acc by auto
          ultimately show ?thesis
            using tab post Some by blast
        qed
      qed
    qed
  qed
qed









section \<open>The raw SQL search\<close>

text \<open>
  Claim C1.  When the request carries an \<^verbatim>\<open>sql\<close> value that is not a single statement,
  \<^verbatim>\<open>datastore_search_sql\<close> raises a validation error without having called any collaborator
  (no access check, no query execution) and without changing any store.  When the value is a
  single statement, the first thing the action does is the access check on the request.
\<close>

theorem search_sql_single_statement_first:
  assumes "data_dict ''sql'' = Some sql"
  shows "(\<not> is_single_statement E sql \<longrightarrow>
            (\<exists>detail. outcome (datastore_search_sql E context data_dict w)
                        = Inl (ValidationError detail))
          \<and> events (datastore_search_sql E context data_dict w) = []
          \<and> final (datastore_search_sql E context data_dict w) = w)
       \<and> (is_single_statement E sql \<longrightarrow>
            (\<exists>rest. events (datastore_search_sql E context data_dict w) =
               CheckAccess ''datastore_search_sql'' data_dict # rest))"
  using assms
  by (simp add: datastore_search_sql_def monad_defs step_defs
           split: option.splits sum.splits prod.splits)

theorem search_sql_single_statement_first_witness:
  "[''sql'' \<mapsto> VStr ''SELECT 1; DROP TABLE x''] ''sql'' = Some (VStr ''SELECT 1; DROP TABLE x'')
   \<and> \<not> is_single_statement demo_env (VStr ''SELECT 1; DROP TABLE x'')
   \<and> events (datastore_search_sql demo_env demo_ctx
               [''sql'' \<mapsto> VStr ''SELECT 1; DROP TABLE x''] demo_world) = []
   \<and> final (datastore_search_sql demo_env demo_ctx
              [''sql'' \<mapsto> VStr ''SELECT 1; DROP TABLE x''] demo_world) = demo_world"
  using search_sql_single_statement_first
    [of "[''sql'' \<mapsto> VStr ''SELECT 1; DROP TABLE x'']" "VStr ''SELECT 1; DROP TABLE x''"
        demo_env demo_ctx demo_world]
  by (simp add: demo_env_def)

text \<open>
  Claim C6.  Whenever \<^verbatim>\<open>datastore_search_sql\<close> reaches the table engine, the dictionary it
  hands over is the request with \<^verbatim>\<open>connection_url\<close> set to the configured
  \<^verbatim>\<open>ckan.datastore.read_url\<close>; where the write URL is a different string, it is not the
  connection string.
\<close>

theorem search_sql_read_only_connection:
  assumes "DbSearchSql d \<in> set (events (datastore_search_sql E context data_dict w))"
  shows "\<exists>url. config E ''ckan.datastore.read_url'' = Some url
           \<and> d = data_dict(''connection_url'' \<mapsto> VStr url)
           \<and> (\<forall>wurl. config E ''ckan.datastore.write_url'' = Some wurl \<and> wurl \<noteq> url
                 \<longrightarrow> d ''connection_url'' \<noteq> Some (VStr wurl))"
  using assms
  by (auto simp add: datastore_search_sql_def monad_defs step_defs Let_def
           split: option.splits sum.splits prod.splits if_splits)

theorem search_sql_read_only_connection_witness:
  "DbSearchSql [''sql'' \<mapsto> VStr ''SELECT 1'',
                ''connection_url'' \<mapsto> VStr ''postgresql://ro@db/datastore'']
     \<in> set (events (datastore_search_sql demo_env demo_ctx [''sql'' \<mapsto> VStr ''SELECT 1'']
                      demo_world))
   \<and> config demo_env ''ckan.datastore.read_url'' = Some ''postgresql://ro@db/datastore''"
proof -
  have ev: "DbSearchSql [''sql'' \<mapsto> VStr ''SELECT 1'',
                         ''connection_url'' \<mapsto> VStr ''postgresql://ro@db/datastore'']
     \<in> set (events (datastore_search_sql demo_env demo_ctx [''sql'' \<mapsto> VStr ''SELECT 1'']
                      demo_world))"
    by (simp add: eval_defs)
  from search_sql_read_only_connection [OF ev] ev show ?thesis
    by (simp add: demo_env_def demo_config_def)
qed

section \<open>The search\<close>

text \<open>
  Claim C10.  Every statement \<^verbatim>\<open>datastore_search\<close> runs on the engine and every call of
  \<^verbatim>\<open>db.search\<close> it makes uses the value of \<^verbatim>\<open>ckan.datastore.write_url\<close> as connection
  string, and not the read-only URL where that is a different string; a request that passes
  validation and names a resource starts with a catalog query on that connection.
\<close>

theorem search_uses_write_connection:
  "(\<forall>conn res_id.
       EngineExecute conn res_id \<in> set (events (datastore_search E context data_dict0 w)) \<longrightarrow>
       (\<exists>url. config E ''ckan.datastore.write_url'' = Some url \<and> conn = Some (VStr url)
          \<and> (\<forall>rurl. config E ''ckan.datastore.read_url'' = Some rurl \<and> rurl \<noteq> url
                \<longrightarrow> conn \<noteq> Some (VStr rurl))))
   \<and> (\<forall>d. DbSearch d \<in> set (events (datastore_search E context data_dict0 w)) \<longrightarrow>
       (\<exists>url. config E ''ckan.datastore.write_url'' = Some url
          \<and> d ''connection_url'' = Some (VStr url)
          \<and> (\<forall>rurl. config E ''ckan.datastore.read_url'' = Some rurl \<and> rurl \<noteq> url
                \<longrightarrow> d ''connection_url'' \<noteq> Some (VStr rurl))))
   \<and> (\<forall>data_dict res_id url.
         validate E (ctx_get_schema context SearchSchema) context data_dict0 = (data_dict, [])
         \<and> data_dict ''resource_id'' = Some res_id
         \<and> config E ''ckan.datastore.write_url'' = Some url \<longrightarrow>
         (\<exists>rest. events (datastore_search E context data_dict0 w)
                   = EngineExecute (Some (VStr url)) res_id # rest))"
  by (auto simp add: datastore_search_def monad_defs step_defs Let_def
           split: option.splits sum.splits prod.splits if_splits)

theorem search_uses_write_connection_witness:
  "validate demo_env (ctx_get_schema demo_ctx SearchSchema) demo_ctx
      [''resource_id'' \<mapsto> VStr ''res-1''] = ([''resource_id'' \<mapsto> VStr ''res-1''], [])
   \<and> config demo_env ''ckan.datastore.write_url'' = Some ''postgresql://rw@db/datastore''
   \<and> (\<exists>rest. events (datastore_search demo_env demo_ctx [''resource_id'' \<mapsto> VStr ''res-1'']
                        demo_world)
         = EngineExecute (Some (VStr ''postgresql://rw@db/datastore'')) (VStr ''res-1'') # rest)"
proof -
  have v: "validate demo_env (ctx_get_schema demo_ctx SearchSchema) demo_ctx
      [''resource_id'' \<mapsto> VStr ''res-1''] = ([''resource_id'' \<mapsto> VStr ''res-1''], [])"
    by (simp add: demo_env_def)
  have c: "config demo_env ''ckan.datastore.write_url'' = Some ''postgresql://rw@db/datastore''"
    by (simp add: demo_env_def demo_config_def)
  have r: "[''resource_id'' \<mapsto> VStr ''res-1''] ''resource_id'' = Some (VStr ''res-1'')"
    by simp
  from search_uses_write_connection
    [of demo_env demo_ctx "[''resource_id'' \<mapsto> VStr ''res-1'']" demo_world]
  have "\<exists>rest. events (datastore_search demo_env demo_ctx [''resource_id'' \<mapsto> VStr ''res-1'']
                        demo_world)
         = EngineExecute (Some (VStr ''postgresql://rw@db/datastore'')) (VStr ''res-1'') # rest"
    using v c r by blast
  with v c show ?thesis by blast
qed

text \<open>
  Claim C5.  Let the validated request of \<^verbatim>\<open>datastore_search\<close> name \<open>ident\<close>.  When it
  passed validation, \<open>ident\<close> is not whitelisted and the first catalog row named \<open>ident\<close> has
  a non-null \<^verbatim>\<open>alias_of\<close> (a table name, hence not the empty string), the access check comes
  right after the catalog query and receives the request with \<^verbatim>\<open>resource_id\<close> replaced by the
  real table, and the only call that can follow is \<^verbatim>\<open>db.search\<close> with that same dictionary.
  When \<open>ident\<close> is \<^verbatim>\<open>_table_metadata\<close>, no access check is made, whatever else happens.
\<close>

theorem search_access_on_real_table:
  assumes "validate E (ctx_get_schema context SearchSchema) context data_dict0
             = (data_dict, errors)"
    and "data_dict ''resource_id'' = Some (VStr ident)"
  shows "(errors = [] \<and> ident \<notin> set WHITELISTED_RESOURCES
          \<and> named_rows w (VStr ident) = row # rows \<and> alias_of row = Some real \<and> real \<noteq> []
          \<and> config E ''ckan.datastore.write_url'' = Some url \<longrightarrow>
          (\<exists>rest. events (datastore_search E context data_dict0 w) =
              EngineExecute (Some (VStr url)) (VStr ident)
              # CheckAccess ''datastore_search''
                  (data_dict(''connection_url'' \<mapsto> VStr url, ''resource_id'' \<mapsto> VStr real))
              # rest
            \<and> (rest = [] \<or> rest = [DbSearch
                  (data_dict(''connection_url'' \<mapsto> VStr url, ''resource_id'' \<mapsto> VStr real))])))
       \<and> (ident = ''_table_metadata'' \<longrightarrow>
            (\<forall>a d. CheckAccess a d \<notin> set (events (datastore_search E context data_dict0 w))))"
  using assms
  by (auto simp add: datastore_search_def monad_defs step_defs Let_def WHITELISTED_RESOURCES_def
           split: option.splits sum.splits prod.splits if_splits)

theorem search_access_on_real_table_witness:
  "validate demo_env (ctx_get_schema demo_ctx SearchSchema) demo_ctx
      [''resource_id'' \<mapsto> VStr ''budget''] = ([''resource_id'' \<mapsto> VStr ''budget''], [])
   \<and> ''budget'' \<notin> set WHITELISTED_RESOURCES
   \<and> named_rows demo_world (VStr ''budget'') = [\<lparr> name = ''budget'', alias_of = Some ''res-1'' \<rparr>]
   \<and> (\<exists>rest. events (datastore_search demo_env demo_ctx [''resource_id'' \<mapsto> VStr ''budget'']
                        demo_world) =
          EngineExecute (Some (VStr ''postgresql://rw@db/datastore'')) (VStr ''budget'')
          # CheckAccess ''datastore_search''
              [''resource_id'' \<mapsto> VStr ''budget'',
               ''connection_url'' \<mapsto> VStr ''postgresql://rw@db/datastore'',
               ''resource_id'' \<mapsto> VStr ''res-1'']
          # rest)"
proof -
  have v: "validate demo_env (ctx_get_schema demo_ctx SearchSchema) demo_ctx
      [''resource_id'' \<mapsto> VStr ''budget''] = ([''resource_id'' \<mapsto> VStr ''budget''], [])"
    by (simp add: demo_env_def)
  have r: "[''resource_id'' \<mapsto> VStr ''budget''] ''resource_id'' = Some (VStr ''budget'')"
    by simp
  have n: "''budget'' \<notin> set WHITELISTED_RESOURCES"
    by (simp add: WHITELISTED_RESOURCES_def)
  have rows: "named_rows demo_world (VStr ''budget'')
                = [\<lparr> name = ''budget'', alias_of = Some ''res-1'' \<rparr>]"
    by (simp add: named_rows_def demo_world_def)
  have a: "alias_of \<lparr> name = ''budget'', alias_of = Some ''res-1'' \<rparr> = Some ''res-1''"
    by simp
  have ne: "''res-1'' \<noteq> []"
    by simp
  have c: "config demo_env ''ckan.datastore.write_url'' = Some ''postgresql://rw@db/datastore''"
    by (simp add: demo_env_def demo_config_def)
  from search_access_on_real_table [OF v r, of demo_world
      "\<lparr> name = ''budget'', alias_of = Some ''res-1'' \<rparr>" "[]" "''res-1''"
      "''postgresql://rw@db/datastore''"]
  have "\<exists>rest. events (datastore_search demo_env demo_ctx [''resource_id'' \<mapsto> VStr ''budget'']
                        demo_world) =
          EngineExecute (Some (VStr ''postgresql://rw@db/datastore'')) (VStr ''budget'')
          # CheckAccess ''datastore_search''
              [''resource_id'' \<mapsto> VStr ''budget'',
               ''connection_url'' \<mapsto> VStr ''postgresql://rw@db/datastore'',
               ''resource_id'' \<mapsto> VStr ''res-1'']
          # rest"
    using n rows a ne c by blast
  with v n rows show ?thesis by blast
qed

section \<open>The activation-flag synchronizer\<close>



section \<open>The mutating actions\<close>




text \<open>
  Claim C3, as amended.  For \<^verbatim>\<open>datastore_upsert\<close> and \<^verbatim>\<open>datastore_delete\<close> on a request that
  passed validation and names a resource: a caller the access policy refuses gets the
  policy's error and the read-only gate is not consulted.  For a caller the policy accepts:
  with a true \<^verbatim>\<open>force\<close> the next collaborator call is the existence query on the catalog, so
  the gate is bypassed; without it, the gate reads the resource, raises the read-only
  validation error when its \<^verbatim>\<open>url_type\<close> is not \<^verbatim>\<open>datastore\<close>, and lets the action go on to
  the existence query when its \<^verbatim>\<open>url_type\<close> is \<^verbatim>\<open>datastore\<close>.
\<close>

theorem read_only_gate_keyed_on_url_type:
  assumes "(run = datastore_upsert E context data_dict0 w \<and> action_name = ''datastore_upsert''
              \<and> upsert_validated E context data_dict0 = (data_dict, []))
         \<or> (run = datastore_delete E context data_dict0 w \<and> action_name = ''datastore_delete''
              \<and> delete_validated E context data_dict0 = Inr data_dict)"
    and "data_dict ''resource_id'' = Some res_id"
  shows "(\<forall>e. check_access E action_name context w data_dict = Some e \<longrightarrow>
             outcome run = Inl e \<and> events run = [CheckAccess action_name data_dict])
       \<and> (check_access E action_name context w data_dict = None \<longrightarrow>
            (truthy (get_default data_dict ''force'' (VBool False)) \<longrightarrow>
               (\<forall>url. config E ''ckan.datastore.write_url'' = Some url \<longrightarrow>
                  (\<exists>rest. events run = CheckAccess action_name data_dict
                             # EngineExecute (Some (VStr url)) res_id # rest)))
          \<and> (\<not> truthy (get_default data_dict ''force'' (VBool False)) \<longrightarrow>
               (\<forall>res. resource_show E context w res_id = Inr res \<longrightarrow>
                  (get_default res ''url_type'' VNone \<noteq> VStr ''datastore'' \<longrightarrow>
                     outcome run = Inl read_only_error
                   \<and> events run = [CheckAccess action_name data_dict, ResourceShow res_id])
                \<and> (get_default res ''url_type'' VNone = VStr ''datastore'' \<longrightarrow>
                     (\<forall>url. config E ''ckan.datastore.write_url'' = Some url \<longrightarrow>
                        (\<exists>rest. events run = CheckAccess action_name data_dict
                                   # ResourceShow res_id
                                   # EngineExecute (Some (VStr url)) res_id # rest))))))"
  using assms(1)
proof (elim disjE conjE)
  assume "run = datastore_upsert E context data_dict0 w" "action_name = ''datastore_upsert''"
    "upsert_validated E context data_dict0 = (data_dict, [])"
  then show ?thesis
    using assms(2)
    by (auto simp add: datastore_upsert_def gate_defs monad_defs step_defs Let_def
           split: option.splits sum.splits prod.splits if_splits)
next
  assume "run = datastore_delete E context data_dict0 w" "action_name = ''datastore_delete''"
    "delete_validated E context data_dict0 = Inr data_dict"
  then show ?thesis
    using assms(2)
    by (auto simp add: datastore_delete_def gate_defs monad_defs step_defs Let_def
           split: option.splits sum.splits prod.splits if_splits)
qed

theorem read_only_gate_keyed_on_url_type_witness:
  "upsert_validated demo_env demo_ctx [''resource_id'' \<mapsto> VStr ''res-upload'']
     = ([''resource_id'' \<mapsto> VStr ''res-upload''], [])
   \<and> check_access demo_env ''datastore_upsert'' demo_ctx demo_world
        [''resource_id'' \<mapsto> VStr ''res-upload''] = None
   \<and> resource_show demo_env demo_ctx demo_world (VStr ''res-upload'')
       = Inr [''id'' \<mapsto> VStr ''res-upload'', ''url_type'' \<mapsto> VStr ''upload'']
   \<and> outcome (datastore_upsert demo_env demo_ctx [''resource_id'' \<mapsto> VStr ''res-upload'']
                 demo_world) = Inl read_only_error"
proof -
  have v: "upsert_validated demo_env demo_ctx [''resource_id'' \<mapsto> VStr ''res-upload'']
     = ([''resource_id'' \<mapsto> VStr ''res-upload''], [])"
    by (simp add: eval_defs)
  have a: "check_access demo_env ''datastore_upsert'' demo_ctx demo_world
        [''resource_id'' \<mapsto> VStr ''res-upload''] = None"
    by (simp add: demo_env_def)
  have s: "resource_show demo_env demo_ctx demo_world (VStr ''res-upload'')
       = Inr [''id'' \<mapsto> VStr ''res-upload'', ''url_type'' \<mapsto> VStr ''upload'']"
    by (simp add: demo_env_def demo_world_def lookup_resource_def)
  have f: "\<not> truthy (get_default [''resource_id'' \<mapsto> VStr ''res-upload''] ''force'' (VBool False))"
    by (simp add: get_default_def)
  have u: "get_default [''id'' \<mapsto> VStr ''res-upload'', ''url_type'' \<mapsto> VStr ''upload'']
             ''url_type'' VNone \<noteq> VStr ''datastore''"
    by (simp add: get_default_def)
  have r: "[''resource_id'' \<mapsto> VStr ''res-upload''] ''resource_id'' = Some (VStr ''res-upload'')"
    by simp
  from read_only_gate_keyed_on_url_type
    [of "datastore_upsert demo_env demo_ctx [''resource_id'' \<mapsto> VStr ''res-upload'']
           demo_world"
        demo_env demo_ctx "[''resource_id'' \<mapsto> VStr ''res-upload'']" demo_world
        "''datastore_upsert''" "[''resource_id'' \<mapsto> VStr ''res-upload'']"
        "VStr ''res-upload''"]
  have "outcome (datastore_upsert demo_env demo_ctx [''resource_id'' \<mapsto> VStr ''res-upload'']
                 demo_world) = Inl read_only_error"
    using v a s f u r by blast
  with v a s show ?thesis by blast
qed

text \<open>
  Claim C3 as stated fails: a resource and its table are created by \<^verbatim>\<open>datastore_create\<close>
  from a resource specification, without \<^verbatim>\<open>force\<close>; a following \<^verbatim>\<open>datastore_upsert\<close> without
  \<^verbatim>\<open>force\<close> reaches the table engine and returns, since \<^verbatim>\<open>datastore_create\<close> has set the
  \<^verbatim>\<open>url_type\<close> of the resource to \<^verbatim>\<open>datastore\<close>.
\<close>

theorem read_only_gate_keyed_on_url_type_counterexample:
  "outcome (datastore_create demo_env demo_ctx demo_create_request demo_world)
     = Inr (Some [''resource'' \<mapsto> VDict [(''package_id'', VStr ''pkg-1''),
                                           (''url'', VStr ''_datastore_only_resource'')],
                  ''resource_id'' \<mapsto> VStr ''res-new''])
   \<and> real_table_rows demo_after_create (VStr ''res-new'')
       = [\<lparr> name = ''res-new'', alias_of = None \<rparr>]
   \<and> demo_upsert_request ''force'' = None
   \<and> datastore_upsert demo_env demo_ctx demo_upsert_request demo_after_create
       = (Inr demo_upsert_request, demo_after_create,
          [CheckAccess ''datastore_upsert'' demo_upsert_request,
           ResourceShow (VStr ''res-new''),
           EngineExecute (Some (VStr ''postgresql://rw@db/datastore'')) (VStr ''res-new''),
           DbUpsert (demo_upsert_request
                       (''connection_url'' \<mapsto> VStr ''postgresql://rw@db/datastore''))])
   \<and> outcome (datastore_upsert demo_env demo_ctx demo_upsert_request demo_after_create)
       \<noteq> Inl read_only_error"
  by (simp add: eval_defs demo_create_request_def demo_after_create_def demo_upsert_request_def)

text \<open>
  Claim C4, as amended.  When the resource id of the validated request matches no catalog row
  with a null \<^verbatim>\<open>alias_of\<close>, \<^verbatim>\<open>datastore_upsert\<close> and \<^verbatim>\<open>datastore_delete\<close> end with an
  exception and never call \<^verbatim>\<open>db.upsert\<close> or \<^verbatim>\<open>db.delete\<close>.  The exception is the not-found
  error for that id when the request passed validation, the access policy accepted the
  caller, the read-only gate was bypassed by \<^verbatim>\<open>force\<close> or found \<^verbatim>\<open>url_type\<close> to be
  \<^verbatim>\<open>datastore\<close>, and the write URL is configured; otherwise the earlier step raises first.
\<close>

theorem mutation_requires_real_table:
  assumes "(run = datastore_upsert E context data_dict0 w \<and> action_name = ''datastore_upsert''
              \<and> upsert_validated E context data_dict0 = (data_dict, errors))
         \<or> (run = datastore_delete E context data_dict0 w \<and> action_name = ''datastore_delete''
              \<and> delete_validated E context data_dict0 = Inr data_dict \<and> errors = [])"
    and "data_dict ''resource_id'' = Some res_id"
    and "real_table_rows w res_id = []"
  shows "(\<exists>e. outcome run = Inl e)
       \<and> (\<forall>d. DbUpsert d \<notin> set (events run) \<and> DbDelete d \<notin> set (events run))
       \<and> (errors = [] \<and> check_access E action_name context w data_dict = None
           \<and> (truthy (get_default data_dict ''force'' (VBool False))
                \<or> (\<exists>res. resource_show E context w res_id = Inr res
                      \<and> res ''url_type'' = Some (VStr ''datastore'')))
           \<and> config E ''ckan.datastore.write_url'' \<noteq> None
           \<longrightarrow> outcome run = Inl (ObjectNotFound res_id))"
  using assms(1)
proof (elim disjE conjE)
  assume "run = datastore_upsert E context data_dict0 w" "action_name = ''datastore_upsert''"
    "upsert_validated E context data_dict0 = (data_dict, errors)"
  then show ?thesis
    using assms(2,3)
    by (auto simp add: datastore_upsert_def gate_defs monad_defs step_defs Let_def
           split: option.splits sum.splits prod.splits if_splits)
next
  assume "run = datastore_delete E context data_dict0 w" "action_name = ''datastore_delete''"
    "delete_validated E context data_dict0 = Inr data_dict" "errors = []"
  then show ?thesis
    using assms(2,3)
    by (auto simp add: datastore_delete_def gate_defs monad_defs step_defs Let_def
           split: option.splits sum.splits prod.splits if_splits)
qed

theorem mutation_requires_real_table_witness:
  "upsert_validated demo_env demo_ctx
      [''resource_id'' \<mapsto> VStr ''budget'', ''force'' \<mapsto> VBool True]
     = ([''resource_id'' \<mapsto> VStr ''budget'', ''force'' \<mapsto> VBool True], [])
   \<and> real_table_rows demo_world (VStr ''budget'') = []
   \<and> outcome (datastore_upsert demo_env demo_ctx
                 [''resource_id'' \<mapsto> VStr ''budget'', ''force'' \<mapsto> VBool True] demo_world)
       = Inl (ObjectNotFound (VStr ''budget''))"
proof -
  have v: "upsert_validated demo_env demo_ctx
      [''resource_id'' \<mapsto> VStr ''budget'', ''force'' \<mapsto> VBool True]
     = ([''resource_id'' \<mapsto> VStr ''budget'', ''force'' \<mapsto> VBool True], [])"
    by (simp add: eval_defs)
  have n: "real_table_rows demo_world (VStr ''budget'') = []"
    by (simp add: real_table_rows_def demo_world_def)
  have a: "check_access demo_env ''datastore_upsert'' demo_ctx demo_world
        [''resource_id'' \<mapsto> VStr ''budget'', ''force'' \<mapsto> VBool True] = None"
    by (simp add: demo_env_def)
  have f: "truthy (get_default [''resource_id'' \<mapsto> VStr ''budget'', ''force'' \<mapsto> VBool True]
                     ''force'' (VBool False))"
    by (simp add: get_default_def)
  have c: "config demo_env ''ckan.datastore.write_url'' \<noteq> None"
    by (simp add: demo_env_def demo_config_def)
  have r: "[''resource_id'' \<mapsto> VStr ''budget'', ''force'' \<mapsto> VBool True] ''resource_id''
             = Some (VStr ''budget'')"
    by simp
  from mutation_requires_real_table
    [of "datastore_upsert demo_env demo_ctx
           [''resource_id'' \<mapsto> VStr ''budget'', ''force'' \<mapsto> VBool True] demo_world"
        demo_env demo_ctx "[''resource_id'' \<mapsto> VStr ''budget'', ''force'' \<mapsto> VBool True]"
        demo_world "''datastore_upsert''"
        "[''resource_id'' \<mapsto> VStr ''budget'', ''force'' \<mapsto> VBool True]" "[]"
        "VStr ''budget''"]
  have "outcome (datastore_upsert demo_env demo_ctx
                 [''resource_id'' \<mapsto> VStr ''budget'', ''force'' \<mapsto> VBool True] demo_world)
       = Inl (ObjectNotFound (VStr ''budget''))"
    using v n a f c r by blast
  with v n show ?thesis by blast
qed

text \<open>
  Claim C4 as stated fails: the uploaded resource has no table, and a \<^verbatim>\<open>datastore_upsert\<close>
  or \<^verbatim>\<open>datastore_delete\<close> on it without \<^verbatim>\<open>force\<close> raises the read-only validation error of
  the gate, not the not-found error.
\<close>

theorem mutation_requires_real_table_counterexample:
  "real_table_rows demo_world (VStr ''res-upload'') = []
   \<and> outcome (datastore_upsert demo_env demo_ctx [''resource_id'' \<mapsto> VStr ''res-upload'']
                 demo_world) = Inl read_only_error
   \<and> outcome (datastore_delete demo_env demo_ctx [''resource_id'' \<mapsto> VStr ''res-upload'']
                 demo_world) = Inl read_only_error
   \<and> read_only_error \<noteq> ObjectNotFound (VStr ''res-upload'')"
  by (simp add: eval_defs read_only_error_def)

text \<open>
  Claim C8, as amended.  For a request whose resource specification has a \<^verbatim>\<open>url\<close> key,
  \<^verbatim>\<open>datastore_create\<close> never calls \<^verbatim>\<open>db.create\<close> and never returns a table description.  When
  the request passed validation, the access policy accepted the caller, no \<^verbatim>\<open>resource_id\<close>
  came with the specification and \<^verbatim>\<open>resource_create\<close> returned the new resource: with the
  datapusher plugin loaded and a submission that succeeds, the action has created the
  resource, submitted its id and returns nothing; with the plugin not loaded, it raises a
  validation error after the resource was created and submits nothing.
\<close>

theorem create_from_url_defers_to_datapusher:
  assumes "data_dict0 ''resource'' = Some (VDict kvs)" and "map_of kvs ''url'' \<noteq> None"
    and "create_validated E context data_dict0 = (data_dict, errors)"
  shows "(\<forall>d. DbCreate d \<notin> set (events (datastore_create E context data_dict0 w)))
       \<and> (\<forall>description. outcome (datastore_create E context data_dict0 w) \<noteq> Inr (Some description))
       \<and> (\<forall>resource_dict reg new_id.
             errors = [] \<and> check_access E ''datastore_create'' context w data_dict = None
           \<and> data_dict ''resource_id'' = None
           \<and> resource_create E context w kvs = Inr (resource_dict, reg)
           \<and> resource_dict ''id'' = Some new_id \<longrightarrow>
             (plugin_loaded E ''datapusher''
              \<and> datapusher_submit E context (w\<lparr>registry := reg\<rparr>)
                   [''resource_id'' \<mapsto> new_id, ''set_url_type'' \<mapsto> VBool True] = None \<longrightarrow>
                outcome (datastore_create E context data_dict0 w) = Inr None
              \<and> final (datastore_create E context data_dict0 w) = w\<lparr>registry := reg\<rparr>
              \<and> events (datastore_create E context data_dict0 w) =
                  [CheckAccess ''datastore_create'' data_dict, ResourceCreate kvs,
                   DatapusherSubmit [''resource_id'' \<mapsto> new_id, ''set_url_type'' \<mapsto> VBool True]])
           \<and> (\<not> plugin_loaded E ''datapusher'' \<longrightarrow>
                outcome (datastore_create E context data_dict0 w) =
                  Inl (ValidationError (VDict [(''resource'',
                         VList [VStr ''The datapusher has to be enabled.''])]))
              \<and> events (datastore_create E context data_dict0 w) =
                  [CheckAccess ''datastore_create'' data_dict, ResourceCreate kvs]))"
proof -
  have res: "data_dict ''resource'' = Some (VDict kvs)"
    using assms
    by (auto simp add: create_validated_def Let_def get_default_def split: prod.splits if_splits)
  show ?thesis
    using res assms(2,3)
    by (auto simp add: datastore_create_def create_resource_branch_def monad_defs step_defs Let_def
           split: option.splits sum.splits prod.splits if_splits)
qed

theorem create_from_url_defers_to_datapusher_witness:
  "demo_url_request ''resource''
     = Some (VDict [(''package_id'', VStr ''pkg-1''), (''url'', VStr ''http://example.com/data.csv'')])
   \<and> map_of [(''package_id'', VStr ''pkg-1''), (''url'', VStr ''http://example.com/data.csv'')]
        ''url'' \<noteq> None
   \<and> create_validated demo_env demo_ctx demo_url_request = (demo_url_request, [])
   \<and> plugin_loaded demo_env ''datapusher''
   \<and> outcome (datastore_create demo_env demo_ctx demo_url_request demo_world) = Inr None"
proof -
  let ?kvs = "[(''package_id'', VStr ''pkg-1''), (''url'', VStr ''http://example.com/data.csv'')]"
  let ?reg = "(registry demo_world)(''res-new'' \<mapsto>
                \<lparr> url_type = VNone, extras = Map.empty, package_id = ''pkg-1'' \<rparr>)"
  have s: "demo_url_request ''resource'' = Some (VDict ?kvs)"
    by (simp add: demo_url_request_def)
  have u: "map_of ?kvs ''url'' \<noteq> None"
    by simp
  have v: "create_validated demo_env demo_ctx demo_url_request = (demo_url_request, [])"
    by (simp add: eval_defs demo_url_request_def)
  have a: "check_access demo_env ''datastore_create'' demo_ctx demo_world demo_url_request = None"
    by (simp add: demo_env_def)
  have n: "demo_url_request ''resource_id'' = None"
    by (simp add: demo_url_request_def)
  have c: "resource_create demo_env demo_ctx demo_world ?kvs
             = Inr ((map_of ?kvs)(''id'' \<mapsto> VStr ''res-new''), ?reg)"
    by (simp add: demo_env_def demo_string_def get_default_def)
  have i: "((map_of ?kvs)(''id'' \<mapsto> VStr ''res-new'')) ''id'' = Some (VStr ''res-new'')"
    by simp
  have p: "plugin_loaded demo_env ''datapusher''"
    by (simp add: demo_env_def)
  have d: "datapusher_submit demo_env demo_ctx (demo_world\<lparr>registry := ?reg\<rparr>)
             [''resource_id'' \<mapsto> VStr ''res-new'', ''set_url_type'' \<mapsto> VBool True] = None"
    by (simp add: demo_env_def)
  from create_from_url_defers_to_datapusher [OF s u v, of demo_world]
  have "outcome (datastore_create demo_env demo_ctx demo_url_request demo_world) = Inr None"
    using a n c i p d by blast
  with s u v p show ?thesis by blast
qed

text \<open>
  Claim C8 as stated fails: without the datapusher plugin the same request creates the
  resource, submits nothing and ends with a validation error instead of returning.
\<close>

theorem create_from_url_defers_to_datapusher_counterexample:
  "datastore_create demo_env_no_datapusher demo_ctx demo_url_request demo_world
    = (Inl (ValidationError (VDict [(''resource'',
              VList [VStr ''The datapusher has to be enabled.''])])),
       demo_world\<lparr>registry := (registry demo_world)(''res-new'' \<mapsto>
          \<lparr> url_type = VNone, extras = Map.empty, package_id = ''pkg-1'' \<rparr>)\<rparr>,
       [CheckAccess ''datastore_create'' demo_url_request,
        ResourceCreate [(''package_id'', VStr ''pkg-1''),
                        (''url'', VStr ''http://example.com/data.csv'')]])"
  by (simp add: eval_defs demo_url_request_def demo_env_no_datapusher_def)

text \<open>
  Claim C9, as amended.  Whenever \<^verbatim>\<open>datastore_create\<close> calls \<^verbatim>\<open>db.create\<close>, it has read the
  resource named by the dictionary it hands over, and that dictionary has \<^verbatim>\<open>private\<close> set
  to true exactly when the key \<^verbatim>\<open>ckan.datastore.read_url\<close> is present in the configuration
  (whatever its value) and the package of the resource is private; otherwise its \<^verbatim>\<open>private\<close>
  entry is the one of the validated request.
\<close>

theorem create_marks_private_when_read_url_configured:
  assumes "create_validated E context data_dict0 = (data_dict, errors)"
    and "DbCreate d \<in> set (events (datastore_create E context data_dict0 w))"
  shows "\<exists>res_id resource. d ''resource_id'' = Some res_id
          \<and> ResourceGet res_id resource \<in> set (events (datastore_create E context data_dict0 w))
          \<and> (if config E ''ckan.datastore.read_url'' \<noteq> None
                \<and> (\<exists>row. resource = Some row \<and> package_private w (package_id row) = Some True)
              then d ''private'' = Some (VBool True)
              else d ''private'' = data_dict ''private'')"
proof -
  obtain r w' evs where run: "datastore_create E context data_dict0 w = (r, w', evs)"
    by (cases "datastore_create E context data_dict0 w") auto
  have d: "DbCreate d \<in> set evs" using assms(2) run by (simp add: events_def)
  from datastore_create_post [OF assms(1) run] d
  obtain dd1 w1 pre evs2 where dec: "evs = pre @ evs2" "create_table E context dd1 w1 = (r, w', evs2)"
      "package_private w1 = package_private w" "dd1 ''private'' = data_dict ''private''"
      "\<forall>ev \<in> set pre. (\<exists>a d. ev = CheckAccess a d) \<or> (\<exists>v. ev = ResourceShow v)
                   \<or> (\<exists>k. ev = ResourceCreate k) \<or> (\<exists>d. ev = ResourceUpdate d)
                   \<or> (\<exists>d. ev = DatapusherSubmit d)"
    by blast
  have "DbCreate d \<in> set evs2" using d dec(1,5) by auto
  with create_table_post [OF dec(2)]
  obtain res_id url where t: "dd1 ''resource_id'' = Some res_id"
      "ResourceGet res_id (lookup_resource w1 res_id) \<in> set evs2"
      "d = (if config E ''ckan.datastore.read_url'' \<noteq> None
                         \<and> (\<exists>row. lookup_resource w1 res_id = Some row
                                \<and> package_private w1 (package_id row) = Some True)
                       then dd1(''connection_url'' \<mapsto> VStr url, ''private'' \<mapsto> VBool True)
                       else dd1(''connection_url'' \<mapsto> VStr url))"
    by blast
  have "d ''resource_id'' = Some res_id" using t(1,3) by simp
  moreover have "ResourceGet res_id (lookup_resource w1 res_id) \<in> set (events (datastore_create E context data_dict0 w))"
    using t(2) dec(1) run by (simp add: events_def)
  moreover have "if config E ''ckan.datastore.read_url'' \<noteq> None
                \<and> (\<exists>row. lookup_resource w1 res_id = Some row \<and> package_private w (package_id row) = Some True)
              then d ''private'' = Some (VBool True)
              else d ''private'' = data_dict ''private''"
    using t(3) dec(3,4) by (auto split: if_splits)
  ultimately show ?thesis by blast
qed

theorem create_marks_private_when_read_url_configured_witness:
  "create_validated demo_env demo_ctx demo_forced_request = (demo_forced_request, [])
   \<and> DbCreate [''resource_id'' \<mapsto> VStr ''res-upload'',
               ''connection_url'' \<mapsto> VStr ''postgresql://rw@db/datastore'',
               ''private'' \<mapsto> VBool True]
       \<in> set (events (datastore_create demo_env demo_ctx demo_forced_request demo_world))
   \<and> (\<exists>res_id resource.
         ResourceGet res_id resource
           \<in> set (events (datastore_create demo_env demo_ctx demo_forced_request demo_world)))"
proof -
  have v: "create_validated demo_env demo_ctx demo_forced_request = (demo_forced_request, [])"
    by (simp add: eval_defs demo_forced_request_def)
  have ev: "DbCreate [''resource_id'' \<mapsto> VStr ''res-upload'',
               ''connection_url'' \<mapsto> VStr ''postgresql://rw@db/datastore'',
               ''private'' \<mapsto> VBool True]
       \<in> set (events (datastore_create demo_env demo_ctx demo_forced_request demo_world))"
    by (simp add: eval_defs demo_forced_request_def)
  from create_marks_private_when_read_url_configured [OF v ev]
  have "\<exists>res_id resource.
         ResourceGet res_id resource
           \<in> set (events (datastore_create demo_env demo_ctx demo_forced_request demo_world))"
    by blast
  with v ev show ?thesis by blast
qed

text \<open>
  Claim C9 as stated fails: with a read URL that is configured and equal to the write URL,
  the split of the specification is not enabled, and the table of a resource in a private
  package is still created with \<^verbatim>\<open>private\<close> set to true.
\<close>

theorem create_marks_private_when_read_url_configured_counterexample:
  "\<not> read_write_split_spec (config demo_env_same_urls)
   \<and> package_private demo_world ''pkg-2'' = Some True
   \<and> events (datastore_create demo_env_same_urls demo_ctx demo_forced_request demo_world)
       = [CheckAccess ''datastore_create'' demo_forced_request,
          ResourceGet (VStr ''res-upload'') (registry demo_world ''res-upload''),
          DbCreate [''resource_id'' \<mapsto> VStr ''res-upload'',
                    ''connection_url'' \<mapsto> VStr ''postgresql://rw@db/datastore'',
                    ''private'' \<mapsto> VBool True],
          SetActiveFlag (Some (VStr ''res-upload'')) True,
          SessionCommit]"
  by (simp add: eval_defs demo_forced_request_def demo_env_same_urls_def
        read_write_split_spec_def)

end
